theory Spec2Isabelle
  imports Main "HOL-Library.Word"
begin

section \<open>JavaScript values\<close>

text \<open>
  The request body that \<^verbatim>\<open>express.json()\<close> hands to the handler is a parsed JSON
  document. The JavaScript value \<^verbatim>\<open>undefined\<close> is \<open>None\<close>. An object is the list of
  its own properties, read with \<open>map_of\<close>.

  Numbers: \<open>JNum w\<close> is the number \<open>sint w\<close>, an integer from \<open>-2^53\<close> to \<open>2^53 - 1\<close>.
  Each of these is an IEEE double, and JavaScript prints each as its decimal numeral.
  Fractions, larger magnitudes and the infinities have no representation here.
\<close>

datatype json =
    JNull
  | JBool bool
  | JNum "54 word"
  | JStr string
  | JArr "json list"
  | JObj "(string \<times> json) list"

type_synonym jsval = "json option"

text \<open>Truthiness, as tested by \<^verbatim>\<open>!x\<close> and \<^verbatim>\<open>x || y\<close>.\<close>

fun truthy_json :: "json \<Rightarrow> bool" where
  "truthy_json JNull = False"
| "truthy_json (JBool b) = b"
| "truthy_json (JNum n) = (n \<noteq> 0)"
| "truthy_json (JStr s) = (s \<noteq> [])"
| "truthy_json (JArr xs) = True"
| "truthy_json (JObj kvs) = True"

fun truthy :: "jsval \<Rightarrow> bool" where
  "truthy None = False"
| "truthy (Some v) = truthy_json v"

text \<open>
  Property reads. \<open>read v k\<close> is \<^verbatim>\<open>v.k\<close> on a value that is neither \<^verbatim>\<open>null\<close> nor
  \<^verbatim>\<open>undefined\<close>: an own property of an object, \<^verbatim>\<open>undefined\<close> on arrays and
  primitives (none of the keys this program reads is inherited). \<open>read_opt v k\<close> is
  \<^verbatim>\<open>v?.k\<close>. The plain reads \<^verbatim>\<open>rpc.jsonrpc\<close>, \<^verbatim>\<open>rpc.method\<close>, \<^verbatim>\<open>rpc.id\<close>,
  \<^verbatim>\<open>rpc.params\<close> and \<^verbatim>\<open>args.a\<close> of the source are all evaluated on a value
  already known to be truthy, where \<^verbatim>\<open>v.k\<close> and \<^verbatim>\<open>v?.k\<close> coincide.
\<close>

fun read :: "json \<Rightarrow> string \<Rightarrow> jsval" where
  "read (JObj kvs) k = map_of kvs k"
| "read v k = None"

fun read_opt :: "jsval \<Rightarrow> string \<Rightarrow> jsval" where
  "read_opt None k = None"
| "read_opt (Some JNull) k = None"
| "read_opt (Some v) k = read v k"

text \<open>\<^verbatim>\<open>x || d\<close> and \<^verbatim>\<open>x ?? d\<close> with a default \<open>d\<close> that is a JSON value.\<close>

definition js_or :: "jsval \<Rightarrow> json \<Rightarrow> json" where
  "js_or x d = (case x of None \<Rightarrow> d | Some v \<Rightarrow> if truthy_json v then v else d)"

definition nullish :: "jsval \<Rightarrow> json \<Rightarrow> json" where
  "nullish x d = (case x of None \<Rightarrow> d | Some v \<Rightarrow> if v = JNull then d else v)"

subsection \<open>String conversion\<close>

text \<open>
  The conversions of JavaScript can throw. The only exception this program can raise is a
  \<^verbatim>\<open>TypeError\<close>; a conversion that throws it has the value \<open>None\<close>.
\<close>

datatype exn = TypeError

fun show_nat :: "nat \<Rightarrow> string" where
  "show_nat n =
     (if n < 10 then [''0123456789'' ! n]
      else show_nat (n div 10) @ [''0123456789'' ! (n mod 10)])"

declare show_nat.simps [simp del]

definition show_int :: "int \<Rightarrow> string" where
  "show_int i = (if i < 0 then CHR ''-'' # show_nat (nat (- i)) else show_nat (nat i))"

fun join_comma :: "string list \<Rightarrow> string" where
  "join_comma [] = []"
| "join_comma [s] = s"
| "join_comma (s # t # ss) = s @ '','' @ join_comma (t # ss)"

text \<open>
  \<open>ToString\<close> is the conversion a template literal applies to \<^verbatim>\<open>${v}\<close>.
  An object is converted by its \<^verbatim>\<open>toString\<close> method and then its \<^verbatim>\<open>valueOf\<close>
  method. An object parsed from JSON inherits both from \<^verbatim>\<open>Object.prototype\<close>, and
  the conversion gives \<^verbatim>\<open>[object Object]\<close>, unless the object has an own property
  named \<^verbatim>\<open>toString\<close>: that value is not a function, the inherited \<^verbatim>\<open>valueOf\<close>
  returns the object itself, and the conversion throws \<^verbatim>\<open>TypeError\<close>. An array is
  the conversions of its elements joined by commas, with \<^verbatim>\<open>null\<close> printed as nothing;
  it throws when the conversion of an element does.
\<close>

fun ToString :: "json \<Rightarrow> string option" where
  "ToString JNull = Some ''null''"
| "ToString (JBool b) = Some (if b then ''true'' else ''false'')"
| "ToString (JNum n) = Some (show_int (sint n))"
| "ToString (JStr s) = Some s"
| "ToString (JArr xs) =
     map_option join_comma (those (map (\<lambda>x. if x = JNull then Some [] else ToString x) xs))"
| "ToString (JObj kvs) =
     (if map_of kvs ''toString'' = None then Some ''[object Object]'' else None)"

definition template :: "jsval \<Rightarrow> string option" where
  "template x = (case x of None \<Rightarrow> Some ''undefined'' | Some v \<Rightarrow> ToString v)"

subsection \<open>Addition\<close>

text \<open>
  \<^verbatim>\<open>l + r\<close>: the left and then the right operand are reduced to primitives, arrays
  and objects to their strings (for an object parsed from JSON the order in which
  \<^verbatim>\<open>valueOf\<close> and \<^verbatim>\<open>toString\<close> are tried does not change the outcome). If either
  primitive is a string the result is the concatenation of the two strings, otherwise the
  sum of the two numbers (\<^verbatim>\<open>true\<close> is 1, \<^verbatim>\<open>false\<close> and \<^verbatim>\<open>null\<close> are 0).

  The sum is the IEEE sum. For operands from \<open>-2^53\<close> to \<open>2^53 - 1\<close> the exact sum \<open>s\<close>
  lies between \<open>-2^54\<close> and \<open>2^54 - 2\<close>; it is a double when \<open>\<bar>s\<bar> \<le> 2^53\<close> or \<open>s\<close> is
  even, and otherwise lies halfway between the doubles \<open>s - 1\<close> and \<open>s + 1\<close>, of which
  the one with the even significand, the multiple of 4, is taken. The result of an
  addition is therefore a string or an integer, \<open>sumval\<close>.
\<close>

datatype sumval = SumStr string | SumNum int

definition round_even :: "int \<Rightarrow> int" where
  "round_even s =
     (if \<bar>s\<bar> \<le> 2 ^ 53 \<or> even s then s
      else if (s + 1) mod 4 = 0 then s + 1 else s - 1)"

fun ToPrimitive :: "json \<Rightarrow> json option" where
  "ToPrimitive (JArr xs) = map_option JStr (ToString (JArr xs))"
| "ToPrimitive (JObj kvs) = map_option JStr (ToString (JObj kvs))"
| "ToPrimitive v = Some v"

fun is_string :: "json \<Rightarrow> bool" where
  "is_string (JStr s) = True"
| "is_string v = False"

fun ToNumber :: "json \<Rightarrow> int" where
  "ToNumber (JNum n) = sint n"
| "ToNumber (JBool b) = (if b then 1 else 0)"
| "ToNumber v = 0"

text \<open>The string of a primitive: no conversion of a primitive throws.\<close>

fun prim_string :: "json \<Rightarrow> string" where
  "prim_string JNull = ''null''"
| "prim_string (JBool b) = (if b then ''true'' else ''false'')"
| "prim_string (JNum n) = show_int (sint n)"
| "prim_string (JStr s) = s"
| "prim_string v = []"

definition js_plus :: "json \<Rightarrow> json \<Rightarrow> sumval option" where
  "js_plus l r =
     (case ToPrimitive l of
        None \<Rightarrow> None
      | Some lp \<Rightarrow>
          (case ToPrimitive r of
             None \<Rightarrow> None
           | Some rp \<Rightarrow>
               if is_string lp \<or> is_string rp then Some (SumStr (prim_string lp @ prim_string rp))
               else Some (SumNum (round_even (ToNumber lp + ToNumber rp)))))"

fun sum_string :: "sumval \<Rightarrow> string" where
  "sum_string (SumStr s) = s"
| "sum_string (SumNum n) = show_int n"

subsection \<open>Object literals and their JSON encoding\<close>

text \<open>
  The response objects are object literals whose \<^verbatim>\<open>id\<close> property holds
  \<^verbatim>\<open>rpc.id\<close>, which may be \<^verbatim>\<open>undefined\<close>. \<^verbatim>\<open>JSON.stringify\<close> (also behind
  \<^verbatim>\<open>res.json\<close>) leaves a property whose value is \<^verbatim>\<open>undefined\<close> out of the
  document. \<open>JSON_stringify\<close> gives the document that is encoded; its rendering as
  text is not modelled.
\<close>

fun defined_fields :: "(string \<times> jsval) list \<Rightarrow> (string \<times> json) list" where
  "defined_fields [] = []"
| "defined_fields ((k, None) # fs) = defined_fields fs"
| "defined_fields ((k, Some v) # fs) = (k, v) # defined_fields fs"

definition JSON_stringify :: "(string \<times> jsval) list \<Rightarrow> json" where
  "JSON_stringify fs = JObj (defined_fields fs)"

section \<open>Sessions and effects\<close>

text \<open>
  \<^verbatim>\<open>sessions\<close> maps a session id to \<^verbatim>\<open>{ sseRes, initialized }\<close>. A stream is the
  response object of the \<^verbatim>\<open>GET /sse-cursor\<close> exchange, named by a number.
\<close>

type_synonym stream = nat

record session =
  sseRes :: "stream option"
  initialized :: bool

type_synonym registry = "string \<rightharpoonup> session"

text \<open>
  A query parameter is a string, or an array or object when the query string
  repeats or nests the name; the latter is truthy and is never a key of the map.
\<close>

datatype qval = QStr string | QNested

text \<open>
  What a handler does to the outside, in program order: \<open>HttpJson c d\<close> is
  \<^verbatim>\<open>res.status(c).json(d)\<close> on the calling exchange (status 200 when the source
  sets none), \<open>SseWrite s c\<close> is \<^verbatim>\<open>sseRes.write(c)\<close> on stream \<open>s\<close>. The chunk
  \<open>Data d\<close> is the line \<^verbatim>\<open>data: ${JSON.stringify(d)}\n\n\<close>. \<open>Throw e\<close> is the
  handler left by the uncaught exception \<open>e\<close>: it is always the last effect, and nothing
  of the handler runs after it. The source has no error handler of its own; what the
  framework sends for an uncaught exception is not part of the model.
\<close>

datatype chunk = Text string | Data json

datatype effect = HttpJson nat json | SseWrite stream chunk | Throw exn

section \<open>GET /sse-cursor and its close handler\<close>

text \<open>
  \<open>sessionId\<close> is the value \<^verbatim>\<open>uuidv4()\<close> returned and \<open>res\<close> the response object of
  the exchange. The heartbeat timer is not part of the model.
\<close>

definition sse_cursor :: "registry \<Rightarrow> string \<Rightarrow> stream \<Rightarrow> registry \<times> effect list" where
  "sse_cursor sessions sessionId res =
     (sessions(sessionId \<mapsto> \<lparr>sseRes = Some res, initialized = False\<rparr>),
      [SseWrite res (Text ''event: endpoint\<newline>''),
       SseWrite res (Text (''data: /message?sessionId='' @ sessionId @ ''\<newline>\<newline>''))])"

definition on_close :: "registry \<Rightarrow> string \<Rightarrow> registry" where
  "on_close sessions sessionId = sessions(sessionId := None)"

section \<open>POST /message\<close>

text \<open>
  The response objects. Where the source builds a string with a template literal, the
  object takes the converted text as an argument: \<open>m\<close> is \<^verbatim>\<open>${rpc.method}\<close>, \<open>n\<close> is
  \<^verbatim>\<open>${toolName}\<close>, \<open>t\<close> is the text of the sum. The handler below performs the
  conversion, which can throw, before it builds the object.
\<close>

definition ack :: "json \<Rightarrow> string \<Rightarrow> effect" where
  "ack rpc m = HttpJson 200 (JSON_stringify
     [(''jsonrpc'', Some (JStr ''2.0'')),
      (''id'', read rpc ''id''),
      (''result'', Some (JObj [(''ack'', JStr (''Received '' @ m))]))])"

definition initCaps :: "json \<Rightarrow> json" where
  "initCaps rpc = JSON_stringify
     [(''jsonrpc'', Some (JStr ''2.0'')),
      (''id'', read rpc ''id''),
      (''result'', Some (JObj
         [(''protocolVersion'', JStr ''2024-11-05''),
          (''capabilities'', JObj
             [(''tools'', JObj [(''listChanged'', JBool True)]),
              (''resources'', JObj [(''subscribe'', JBool True), (''listChanged'', JBool True)]),
              (''prompts'', JObj [(''listChanged'', JBool True)]),
              (''logging'', JObj [])]),
          (''serverInfo'', JObj
             [(''name'', JStr ''final-capabilities-server''),
              (''version'', JStr ''1.0.0'')])]))]"

definition toolsMsg :: "json \<Rightarrow> json" where
  "toolsMsg rpc = JSON_stringify
     [(''jsonrpc'', Some (JStr ''2.0'')),
      (''id'', read rpc ''id''),
      (''result'', Some (JObj
         [(''tools'', JArr
            [JObj
               [(''name'', JStr ''addNumbersTool''),
                (''description'', JStr ''Adds two numbers 'a' and 'b' and returns their sum.''),
                (''inputSchema'', JObj
                   [(''type'', JStr ''object''),
                    (''properties'', JObj
                       [(''a'', JObj [(''type'', JStr ''number'')]),
                        (''b'', JObj [(''type'', JStr ''number'')])]),
                    (''required'', JArr [JStr ''a'', JStr ''b''])])]]),
          (''count'', JNum 1)]))]"

text \<open>
  The text of the \<^verbatim>\<open>addNumbersTool\<close> result, in the order of the source: first
  \<^verbatim>\<open>sum = (args.a || 0) + (args.b || 0)\<close>, then the template literal
  \<^verbatim>\<open>Sum of ${args.a} + ${args.b} = ${sum}\<close>. It throws when a conversion does.
\<close>

definition sum_text :: "json \<Rightarrow> string option" where
  "sum_text args =
     (case js_plus (js_or (read args ''a'') (JNum 0)) (js_or (read args ''b'') (JNum 0)) of
        None \<Rightarrow> None
      | Some sm \<Rightarrow>
          (case template (read args ''a'') of
             None \<Rightarrow> None
           | Some ta \<Rightarrow>
               (case template (read args ''b'') of
                  None \<Rightarrow> None
                | Some tb \<Rightarrow>
                    Some (''Sum of '' @ ta @ '' + '' @ tb @ '' = '' @ sum_string sm))))"

definition callMsg :: "json \<Rightarrow> string \<Rightarrow> json" where
  "callMsg rpc t = JSON_stringify
     [(''jsonrpc'', Some (JStr ''2.0'')),
      (''id'', read rpc ''id''),
      (''result'', Some (JObj
         [(''content'', JArr [JObj [(''type'', JStr ''text''), (''text'', JStr t)]])]))]"

definition callErr :: "json \<Rightarrow> string \<Rightarrow> json" where
  "callErr rpc n = JSON_stringify
     [(''jsonrpc'', Some (JStr ''2.0'')),
      (''id'', read rpc ''id''),
      (''error'', Some (JObj
         [(''code'', JNum (- 32601)),
          (''message'', JStr (''No such tool '' @ [CHR 0x27] @ n @ [CHR 0x27]))]))]"

definition errObj :: "json \<Rightarrow> string \<Rightarrow> json" where
  "errObj rpc m = JSON_stringify
     [(''jsonrpc'', Some (JStr ''2.0'')),
      (''id'', read rpc ''id''),
      (''error'', Some (JObj
         [(''code'', JNum (- 32601)),
          (''message'', JStr (''Method '' @ [CHR 0x27] @ m @ [CHR 0x27] @ '' not recognized''))]))]"

definition message_event :: "stream \<Rightarrow> json \<Rightarrow> effect list" where
  "message_event s d = [SseWrite s (Text ''event: message\<newline>''), SseWrite s (Data d)]"

text \<open>
  The \<^verbatim>\<open>switch (rpc.method)\<close>: \<open>sessionId\<close> is the key under which \<open>sessionData\<close> is
  stored, so the assignment \<^verbatim>\<open>sessionData.initialized = true\<close> updates that entry
  of the map. The comparisons are strict: a method or tool name that is not a
  string matches no case. In each case the response object is built, conversions
  included, before the first \<^verbatim>\<open>sseRes.write\<close>, so that a conversion that throws
  leaves the case with nothing written.
\<close>

definition switch_method ::
  "registry \<Rightarrow> string \<Rightarrow> session \<Rightarrow> stream \<Rightarrow> json \<Rightarrow> registry \<times> effect list" where
  "switch_method sessions sessionId sessionData s rpc =
     (if read rpc ''method'' = Some (JStr ''initialize'') then
        (sessions(sessionId \<mapsto> sessionData\<lparr>initialized := True\<rparr>),
         message_event s (initCaps rpc))
      else if read rpc ''method'' = Some (JStr ''tools/list'') then
        (sessions, message_event s (toolsMsg rpc))
      else if read rpc ''method'' = Some (JStr ''tools/call'') then
        (let toolName = read_opt (read rpc ''params'') ''name'';
             args = js_or (read_opt (read rpc ''params'') ''arguments'') (JObj [])
         in if toolName = Some (JStr ''addNumbersTool'')
            then (case sum_text args of
                    None \<Rightarrow> (sessions, [Throw TypeError])
                  | Some t \<Rightarrow> (sessions, message_event s (callMsg rpc t)))
            else (case template toolName of
                    None \<Rightarrow> (sessions, [Throw TypeError])
                  | Some n \<Rightarrow> (sessions, message_event s (callErr rpc n))))
      else if read rpc ''method'' = Some (JStr ''notifications/initialized'') then
        (sessions, [])
      else (case template (read rpc ''method'') of
              None \<Rightarrow> (sessions, [Throw TypeError])
            | Some m \<Rightarrow> (sessions, message_event s (errObj rpc m))))"

definition invalid_request :: "json \<Rightarrow> bool" where
  "invalid_request rpc =
     (read rpc ''jsonrpc'' \<noteq> Some (JStr ''2.0'') \<or> \<not> truthy (read rpc ''method''))"

definition invalid_reply :: "jsval \<Rightarrow> effect" where
  "invalid_reply body = HttpJson 200 (JSON_stringify
     [(''jsonrpc'', Some (JStr ''2.0'')),
      (''id'', Some (nullish (read_opt body ''id'') JNull)),
      (''error'', Some (JObj
         [(''code'', JNum (- 32600)),
          (''message'', JStr ''Invalid JSON-RPC request'')]))])"

text \<open>
  The handler, test by test as in the source: the session id of the query, the
  lookup, the shape of the body, the acknowledgment, the stream, the switch. The
  argument of \<^verbatim>\<open>res.json\<close> for the acknowledgment contains
  \<^verbatim>\<open>`Received ${rpc.method}`\<close> and is evaluated before the call: when that conversion
  throws, the handler is left before it has replied.
\<close>

definition post_message ::
  "registry \<Rightarrow> qval option \<Rightarrow> jsval \<Rightarrow> registry \<times> effect list" where
  "post_message sessions sessionId body =
     (case sessionId of
        None \<Rightarrow>
          (sessions, [HttpJson 400 (JObj [(''error'', JStr ''Missing sessionId in ?sessionId=...'')])])
      | Some QNested \<Rightarrow>
          (sessions, [HttpJson 404 (JObj [(''error'', JStr ''No SSE session with that sessionId'')])])
      | Some (QStr sid) \<Rightarrow>
          if sid = [] then
            (sessions, [HttpJson 400 (JObj [(''error'', JStr ''Missing sessionId in ?sessionId=...'')])])
          else
            (case sessions sid of
               None \<Rightarrow>
                 (sessions, [HttpJson 404 (JObj [(''error'', JStr ''No SSE session with that sessionId'')])])
             | Some sessionData \<Rightarrow>
                 (case body of
                    None \<Rightarrow> (sessions, [invalid_reply body])
                  | Some rpc \<Rightarrow>
                      if \<not> truthy_json rpc \<or> invalid_request rpc then (sessions, [invalid_reply body])
                      else
                        (case template (read rpc ''method'') of
                           None \<Rightarrow> (sessions, [Throw TypeError])
                         | Some m \<Rightarrow>
                             (case sseRes sessionData of
                                None \<Rightarrow> (sessions, [ack rpc m])
                              | Some s \<Rightarrow>
                                  (let (sessions', writes) =
                                         switch_method sessions sid sessionData s rpc
                                   in (sessions', ack rpc m # writes)))))))"

section \<open>The server as a sequence of exchanges\<close>

text \<open>
  The three entry points of the server: a client connects to \<^verbatim>\<open>/sse-cursor\<close> (and
  \<^verbatim>\<open>uuidv4()\<close> returns the given id), the connection of a session closes, a message
  is posted. \<open>serve\<close> runs a sequence of them from a registry.
\<close>

datatype request =
    Connect string stream
  | Disconnect string
  | Message "qval option" jsval

fun handle :: "registry \<Rightarrow> request \<Rightarrow> registry \<times> effect list" where
  "handle sessions (Connect sessionId res) = sse_cursor sessions sessionId res"
| "handle sessions (Disconnect sessionId) = (on_close sessions sessionId, [])"
| "handle sessions (Message sessionId body) = post_message sessions sessionId body"

fun serve :: "registry \<Rightarrow> request list \<Rightarrow> registry" where
  "serve sessions [] = sessions"
| "serve sessions (r # rs) = serve (fst (handle sessions r)) rs"

fun connects :: "string \<Rightarrow> request \<Rightarrow> bool" where
  "connects sid (Connect sessionId res) = (sessionId = sid)"
| "connects sid r = False"

section \<open>Observations on the effects\<close>

text \<open>The \<^verbatim>\<open>id\<close> fields of the data lines written, in order.\<close>

fun sse_ids :: "effect list \<Rightarrow> jsval list" where
  "sse_ids [] = []"
| "sse_ids (SseWrite s (Data d) # es) = read d ''id'' # sse_ids es"
| "sse_ids (e # es) = sse_ids es"

fun is_http :: "effect \<Rightarrow> bool" where
  "is_http (HttpJson c d) = True"
| "is_http e = False"

fun writes_to :: "stream option \<Rightarrow> effect \<Rightarrow> bool" where
  "writes_to t (SseWrite s c) = (t = Some s)"
| "writes_to t e = False"

fun is_throw :: "effect \<Rightarrow> bool" where
  "is_throw (Throw e) = True"
| "is_throw e = False"

section \<open>Properties of the message handler\<close>

subsection \<open>Auxiliary facts\<close>

text \<open>
  Which conversions throw: only that of an array, through one of its elements, and that
  of an object with an own property \<^verbatim>\<open>toString\<close>. Strings, numbers, booleans,
  \<^verbatim>\<open>null\<close> and \<^verbatim>\<open>undefined\<close> always convert.
\<close>

lemma template_throws:
  assumes "template x = None"
  shows "(\<exists>xs. x = Some (JArr xs)) \<or>
         (\<exists>kvs. x = Some (JObj kvs) \<and> map_of kvs ''toString'' \<noteq> None)"
proof (cases x)
  case None
  with assms show ?thesis by (simp add: template_def)
next
  case (Some v)
  with assms show ?thesis
    by (cases v) (simp_all add: template_def split: if_splits)
qed

lemma template_string [simp]: "template (Some (JStr m)) = Some m"
  by (simp add: template_def)

lemma template_undefined [simp]: "template None = Some ''undefined''"
  by (simp add: template_def)

lemma post_message_valid:
  "sid \<noteq> [] \<Longrightarrow> sessions sid = Some sd \<Longrightarrow> truthy_json rpc \<Longrightarrow> \<not> invalid_request rpc \<Longrightarrow>
   sseRes sd = Some s \<Longrightarrow> template (read rpc ''method'') = Some m \<Longrightarrow>
   post_message sessions (Some (QStr sid)) (Some rpc) =
     (fst (switch_method sessions sid sd s rpc),
      ack rpc m # snd (switch_method sessions sid sd s rpc))"
  by (simp add: post_message_def split: prod.split)

lemma read_id_stringify:
  "k \<noteq> ''id'' \<Longrightarrow>
   read (JSON_stringify [(''jsonrpc'', Some v), (''id'', i), (k, Some w)]) ''id'' = i"
  by (cases i) (simp_all add: JSON_stringify_def)

lemma read_id_initCaps [simp]: "read (initCaps rpc) ''id'' = read rpc ''id''"
  unfolding initCaps_def by (rule read_id_stringify) simp

lemma read_id_toolsMsg [simp]: "read (toolsMsg rpc) ''id'' = read rpc ''id''"
  unfolding toolsMsg_def by (rule read_id_stringify) simp

lemma read_id_callMsg [simp]: "read (callMsg rpc t) ''id'' = read rpc ''id''"
  unfolding callMsg_def by (rule read_id_stringify) simp

lemma read_id_callErr [simp]: "read (callErr rpc n) ''id'' = read rpc ''id''"
  unfolding callErr_def by (rule read_id_stringify) simp

lemma read_id_errObj [simp]: "read (errObj rpc m) ''id'' = read rpc ''id''"
  unfolding errObj_def by (rule read_id_stringify) simp

lemma sse_ids_message_event [simp]: "sse_ids (message_event s d) = [read d ''id'']"
  by (simp add: message_event_def)

lemma list_ex_throw_message_event [simp]: "\<not> list_ex is_throw (message_event s d)"
  by (simp add: message_event_def)

lemma sse_ids_switch:
  "sse_ids (snd (switch_method sessions sid sd s rpc)) =
     (if read rpc ''method'' = Some (JStr ''notifications/initialized'') \<or>
         list_ex is_throw (snd (switch_method sessions sid sd s rpc))
      then [] else [read rpc ''id''])"
  by (simp add: switch_method_def Let_def split: option.splits)

lemma sse_ids_ack [simp]: "sse_ids (ack rpc m # es) = sse_ids es"
  by (simp add: ack_def)

lemma sse_ids_invalid [simp]: "sse_ids (invalid_reply b # es) = sse_ids es"
  by (simp add: invalid_reply_def)

lemma read_opt_truthy: "truthy_json rpc \<Longrightarrow> read_opt (Some rpc) k = read rpc k"
  by (cases rpc) simp_all

lemma sse_ids_post:
  "sse_ids (snd (post_message sessions q body)) = [] \<or>
   sse_ids (snd (post_message sessions q body)) = [read_opt body ''id'']"
  by (auto simp: post_message_def sse_ids_switch read_opt_truthy case_prod_beta
      split: option.splits qval.splits)

subsection \<open>Identifier correlation on the stream\<close>

text \<open>
  C1. Every data line that the handler of \<^verbatim>\<open>POST /message\<close> writes to a push stream
  has an \<^verbatim>\<open>id\<close> equal to the \<^verbatim>\<open>id\<close> read from the posted body: nothing is
  substituted or generated, and a body without an \<^verbatim>\<open>id\<close> is answered by a message
  without one. On a registered session with a stream, an accepted envelope of any method
  other than \<^verbatim>\<open>notifications/initialized\<close> (initialize, tools/list, tools/call with
  a known or an unknown tool, an unknown method) whose handling is not ended by an
  exception writes exactly one data line, with that id.
\<close>

theorem async_id_echo:
  "(\<forall>i \<in> set (sse_ids (snd (post_message sessions q body))). i = read_opt body ''id'') \<and>
   (sid \<noteq> [] \<and> sessions sid = Some sd \<and> sseRes sd = Some s \<and> truthy_json rpc \<and>
    read rpc ''jsonrpc'' = Some (JStr ''2.0'') \<and> truthy (read rpc ''method'') \<and>
    read rpc ''method'' \<noteq> Some (JStr ''notifications/initialized'') \<and>
    \<not> list_ex is_throw (snd (post_message sessions (Some (QStr sid)) (Some rpc))) \<longrightarrow>
    sse_ids (snd (post_message sessions (Some (QStr sid)) (Some rpc))) = [read rpc ''id''])"
proof (intro conjI impI)
  show "\<forall>i \<in> set (sse_ids (snd (post_message sessions q body))). i = read_opt body ''id''"
    using sse_ids_post [of sessions q body] by auto
next
  assume a: "sid \<noteq> [] \<and> sessions sid = Some sd \<and> sseRes sd = Some s \<and> truthy_json rpc \<and>
    read rpc ''jsonrpc'' = Some (JStr ''2.0'') \<and> truthy (read rpc ''method'') \<and>
    read rpc ''method'' \<noteq> Some (JStr ''notifications/initialized'') \<and>
    \<not> list_ex is_throw (snd (post_message sessions (Some (QStr sid)) (Some rpc)))"
  then have v: "\<not> invalid_request rpc"
    by (simp add: invalid_request_def)
  show "sse_ids (snd (post_message sessions (Some (QStr sid)) (Some rpc))) = [read rpc ''id'']"
  proof (cases "template (read rpc ''method'')")
    case None
    with a v have "snd (post_message sessions (Some (QStr sid)) (Some rpc)) = [Throw TypeError]"
      by (simp add: post_message_def)
    with a show ?thesis by simp
  next
    case (Some m)
    with a v have p: "post_message sessions (Some (QStr sid)) (Some rpc) =
        (fst (switch_method sessions sid sd s rpc),
         ack rpc m # snd (switch_method sessions sid sd s rpc))"
      by (simp add: post_message_valid)
    with a have "\<not> list_ex is_throw (snd (switch_method sessions sid sd s rpc))"
      by (simp add: ack_def)
    with a p show ?thesis by (simp add: sse_ids_switch)
  qed
qed

theorem async_id_echo_witness:
  "sse_ids (snd (post_message [''s1'' \<mapsto> \<lparr>sseRes = Some 0, initialized = False\<rparr>]
      (Some (QStr ''s1''))
      (Some (JObj [(''jsonrpc'', JStr ''2.0''), (''id'', JNum 7), (''method'', JStr ''tools/list'')]))))
   = [Some (JNum 7)]"
proof -
  have t: "\<not> list_ex is_throw (snd (post_message [''s1'' \<mapsto> \<lparr>sseRes = Some 0, initialized = False\<rparr>]
      (Some (QStr ''s1''))
      (Some (JObj [(''jsonrpc'', JStr ''2.0''), (''id'', JNum 7), (''method'', JStr ''tools/list'')]))))"
    by (simp add: post_message_def invalid_request_def switch_method_def ack_def)
  show ?thesis
    using t async_id_echo [of "[''s1'' \<mapsto> \<lparr>sseRes = Some 0, initialized = False\<rparr>]" None None
      "''s1''" "\<lparr>sseRes = Some 0, initialized = False\<rparr>" 0
      "JObj [(''jsonrpc'', JStr ''2.0''), (''id'', JNum 7), (''method'', JStr ''tools/list'')]"]
    by simp
qed

subsection \<open>The synchronous acknowledgment\<close>

text \<open>
  C2, as stated, at two bodies on a registered session, each present, with protocol tag
  \<^verbatim>\<open>"2.0"\<close> and a \<^verbatim>\<open>method\<close> that is not absent. With the empty string as
  \<^verbatim>\<open>method\<close>, the test \<^verbatim>\<open>!rpc.method\<close> rejects the body and the synchronous reply is
  the \<open>-32600\<close> error, not a success body. With the object \<^verbatim>\<open>{"toString": 1}\<close> as
  \<^verbatim>\<open>method\<close>, the body is accepted and \<^verbatim>\<open>`Received ${rpc.method}`\<close> throws
  \<^verbatim>\<open>TypeError\<close> before \<^verbatim>\<open>res.json\<close> is called: the handler sends no acknowledgment.
\<close>

theorem sync_ack_counterexample:
  "read (JObj [(''jsonrpc'', JStr ''2.0''), (''id'', JNum 1), (''method'', JStr [])]) ''jsonrpc''
     = Some (JStr ''2.0'') \<and>
   read (JObj [(''jsonrpc'', JStr ''2.0''), (''id'', JNum 1), (''method'', JStr [])]) ''method''
     \<noteq> None \<and>
   [''s1'' \<mapsto> \<lparr>sseRes = Some 0, initialized = False\<rparr>] ''s1'' \<noteq> None \<and>
   snd (post_message [''s1'' \<mapsto> \<lparr>sseRes = Some 0, initialized = False\<rparr>] (Some (QStr ''s1''))
      (Some (JObj [(''jsonrpc'', JStr ''2.0''), (''id'', JNum 1), (''method'', JStr [])])))
   = [HttpJson 200 (JObj
        [(''jsonrpc'', JStr ''2.0''), (''id'', JNum 1),
         (''error'', JObj [(''code'', JNum (- 32600)),
                           (''message'', JStr ''Invalid JSON-RPC request'')])])] \<and>
   snd (post_message [''s1'' \<mapsto> \<lparr>sseRes = Some 0, initialized = False\<rparr>] (Some (QStr ''s1''))
      (Some (JObj [(''jsonrpc'', JStr ''2.0''), (''id'', JNum 1),
                   (''method'', JObj [(''toString'', JNum 1)])])))
   = [Throw TypeError]"
  by (simp add: post_message_def invalid_request_def invalid_reply_def JSON_stringify_def
      nullish_def template_def)

text \<open>
  C2, amended. For every envelope that the handler accepts (a truthy body, protocol tag
  equal to \<^verbatim>\<open>"2.0"\<close>, and a truthy \<^verbatim>\<open>method\<close>: present and not \<^verbatim>\<open>null\<close>,
  \<^verbatim>\<open>false\<close>, \<open>0\<close> or the empty string) whose \<^verbatim>\<open>method\<close> converts to a string \<open>m\<close>
  (as every string does), posted to a registered session, the first effect is the HTTP
  reply with status 200 whose body has the \<^verbatim>\<open>id\<close> of the envelope, the result
  \<^verbatim>\<open>{ack: "Received <m>"}\<close> and no \<^verbatim>\<open>error\<close>.
\<close>

theorem sync_ack_id:
  assumes "sid \<noteq> []" and "sessions sid = Some sd"
    and "truthy_json rpc" and "read rpc ''jsonrpc'' = Some (JStr ''2.0'')"
    and "truthy (read rpc ''method'')"
    and "template (read rpc ''method'') = Some m"
  shows "\<exists>d ws. snd (post_message sessions (Some (QStr sid)) (Some rpc)) = HttpJson 200 d # ws \<and>
           read d ''id'' = read rpc ''id'' \<and>
           read d ''result'' = Some (JObj [(''ack'', JStr (''Received '' @ m))]) \<and>
           read d ''error'' = None"
proof -
  have v: "\<not> invalid_request rpc"
    using assms by (simp add: invalid_request_def)
  obtain d where d: "ack rpc m = HttpJson 200 d" "read d ''id'' = read rpc ''id''"
    "read d ''result'' = Some (JObj [(''ack'', JStr (''Received '' @ m))])"
    "read d ''error'' = None"
    by (cases "read rpc ''id''") (simp_all add: ack_def JSON_stringify_def)
  have "\<exists>ws. snd (post_message sessions (Some (QStr sid)) (Some rpc)) = ack rpc m # ws"
    using assms v by (simp add: post_message_def case_prod_beta split: option.splits)
  with d show ?thesis by auto
qed

theorem sync_ack_id_witness:
  "\<exists>d ws. snd (post_message [''s1'' \<mapsto> \<lparr>sseRes = Some 0, initialized = False\<rparr>]
       (Some (QStr ''s1''))
       (Some (JObj [(''jsonrpc'', JStr ''2.0''), (''id'', JNum 7), (''method'', JStr ''tools/list'')])))
     = HttpJson 200 d # ws \<and>
     read d ''id'' = Some (JNum 7) \<and>
     read d ''result'' = Some (JObj [(''ack'', JStr ''Received tools/list'')]) \<and>
     read d ''error'' = None"
  using sync_ack_id [of "''s1''" "[''s1'' \<mapsto> \<lparr>sseRes = Some 0, initialized = False\<rparr>]"
      "\<lparr>sseRes = Some 0, initialized = False\<rparr>"
      "JObj [(''jsonrpc'', JStr ''2.0''), (''id'', JNum 7), (''method'', JStr ''tools/list'')]"
      "''tools/list''"]
  by simp

subsection \<open>Malformed envelopes\<close>

text \<open>
  C3. On a registered session, a body that is absent, or whose protocol tag is missing or
  different from \<^verbatim>\<open>"2.0"\<close>, or whose \<^verbatim>\<open>method\<close> is absent (or otherwise falsy), is
  answered by exactly one effect: the HTTP reply carrying error code \<open>-32600\<close> and an
  \<^verbatim>\<open>id\<close> field that is the \<^verbatim>\<open>id\<close> of the body when it has one and \<^verbatim>\<open>null\<close>
  otherwise. Nothing is written to any stream and the registry is unchanged.
\<close>

theorem malformed_sync_error:
  assumes "sid \<noteq> []" and "sessions sid = Some sd"
    and "body = None \<or> read_opt body ''jsonrpc'' \<noteq> Some (JStr ''2.0'') \<or>
         \<not> truthy (read_opt body ''method'')"
  shows "post_message sessions (Some (QStr sid)) body =
           (sessions,
            [HttpJson 200 (JObj
               [(''jsonrpc'', JStr ''2.0''),
                (''id'', case read_opt body ''id'' of None \<Rightarrow> JNull | Some v \<Rightarrow> v),
                (''error'', JObj [(''code'', JNum (- 32600)),
                                  (''message'', JStr ''Invalid JSON-RPC request'')])])])"
proof -
  have r: "invalid_reply body = HttpJson 200 (JObj
               [(''jsonrpc'', JStr ''2.0''),
                (''id'', case read_opt body ''id'' of None \<Rightarrow> JNull | Some v \<Rightarrow> v),
                (''error'', JObj [(''code'', JNum (- 32600)),
                                  (''message'', JStr ''Invalid JSON-RPC request'')])])"
    by (simp add: invalid_reply_def JSON_stringify_def nullish_def split: option.splits)
  have "post_message sessions (Some (QStr sid)) body = (sessions, [invalid_reply body])"
  proof (cases body)
    case None
    then show ?thesis using assms by (simp add: post_message_def)
  next
    case (Some rpc)
    show ?thesis
    proof (cases "truthy_json rpc")
      case True
      then have "invalid_request rpc"
        using assms(3) Some by (simp add: invalid_request_def read_opt_truthy)
      then show ?thesis using assms Some by (simp add: post_message_def)
    next
      case False
      then show ?thesis using assms Some by (simp add: post_message_def)
    qed
  qed
  with r show ?thesis by simp
qed

theorem malformed_sync_error_witness:
  "post_message [''s1'' \<mapsto> \<lparr>sseRes = Some 0, initialized = False\<rparr>] (Some (QStr ''s1''))
      (Some (JObj [(''jsonrpc'', JStr ''2.0''), (''id'', JNum 4)])) =
     ([''s1'' \<mapsto> \<lparr>sseRes = Some 0, initialized = False\<rparr>],
      [HttpJson 200 (JObj
         [(''jsonrpc'', JStr ''2.0''), (''id'', JNum 4),
          (''error'', JObj [(''code'', JNum (- 32600)),
                            (''message'', JStr ''Invalid JSON-RPC request'')])])]) \<and>
   post_message [''s1'' \<mapsto> \<lparr>sseRes = Some 0, initialized = False\<rparr>] (Some (QStr ''s1'')) None =
     ([''s1'' \<mapsto> \<lparr>sseRes = Some 0, initialized = False\<rparr>],
      [HttpJson 200 (JObj
         [(''jsonrpc'', JStr ''2.0''), (''id'', JNull),
          (''error'', JObj [(''code'', JNum (- 32600)),
                            (''message'', JStr ''Invalid JSON-RPC request'')])])])"
  using malformed_sync_error [of "''s1''" "[''s1'' \<mapsto> \<lparr>sseRes = Some 0, initialized = False\<rparr>]"
      "\<lparr>sseRes = Some 0, initialized = False\<rparr>"
      "Some (JObj [(''jsonrpc'', JStr ''2.0''), (''id'', JNum 4)])"]
    malformed_sync_error [of "''s1''" "[''s1'' \<mapsto> \<lparr>sseRes = Some 0, initialized = False\<rparr>]"
      "\<lparr>sseRes = Some 0, initialized = False\<rparr>" None]
  by simp

subsection \<open>Tool invocation\<close>

lemma post_message_tools_call:
  assumes "sid \<noteq> []" and "sessions sid = Some sd" and "sseRes sd = Some s"
    and "truthy_json rpc" and "read rpc ''jsonrpc'' = Some (JStr ''2.0'')"
    and "read rpc ''method'' = Some (JStr ''tools/call'')"
  shows "post_message sessions (Some (QStr sid)) (Some rpc) =
           (sessions,
            ack rpc ''tools/call'' #
              (if read_opt (read rpc ''params'') ''name'' = Some (JStr ''addNumbersTool'')
               then (case sum_text (js_or (read_opt (read rpc ''params'') ''arguments'') (JObj [])) of
                       None \<Rightarrow> [Throw TypeError]
                     | Some t \<Rightarrow> message_event s (callMsg rpc t))
               else (case template (read_opt (read rpc ''params'') ''name'') of
                       None \<Rightarrow> [Throw TypeError]
                     | Some n \<Rightarrow> message_event s (callErr rpc n))))"
proof -
  have "\<not> invalid_request rpc"
    using assms by (simp add: invalid_request_def)
  then show ?thesis
    using assms post_message_valid [of sid sessions sd rpc s "''tools/call''"]
    by (simp add: switch_method_def Let_def split: option.splits)
qed

text \<open>
  C4, as stated, at an accepted \<^verbatim>\<open>tools/call\<close> envelope whose tool name is the
  object \<^verbatim>\<open>{"toString": 1}\<close>, a name other than \<^verbatim>\<open>addNumbersTool\<close>. The handler
  sends the acknowledgment, and then \<^verbatim>\<open>`No such tool '${toolName}'`\<close> throws
  \<^verbatim>\<open>TypeError\<close> before the first \<^verbatim>\<open>sseRes.write\<close>: no error is written to the
  stream.
\<close>

theorem unknown_tool_counterexample:
  "read_opt (read (JObj [(''jsonrpc'', JStr ''2.0''), (''id'', JNum 9), (''method'', JStr ''tools/call''),
                   (''params'', JObj [(''name'', JObj [(''toString'', JNum 1)])])]) ''params'') ''name''
     \<noteq> Some (JStr ''addNumbersTool'') \<and>
   post_message [''s1'' \<mapsto> \<lparr>sseRes = Some 0, initialized = False\<rparr>] (Some (QStr ''s1''))
      (Some (JObj [(''jsonrpc'', JStr ''2.0''), (''id'', JNum 9), (''method'', JStr ''tools/call''),
                   (''params'', JObj [(''name'', JObj [(''toString'', JNum 1)])])])) =
     ([''s1'' \<mapsto> \<lparr>sseRes = Some 0, initialized = False\<rparr>],
      [HttpJson 200 (JObj
         [(''jsonrpc'', JStr ''2.0''), (''id'', JNum 9),
          (''result'', JObj [(''ack'', JStr ''Received tools/call'')])]),
       Throw TypeError])"
  by (simp add: post_message_def invalid_request_def switch_method_def template_def ack_def
      JSON_stringify_def js_or_def)

text \<open>
  C4, amended. An accepted \<^verbatim>\<open>tools/call\<close> envelope whose tool name is anything but
  the string \<^verbatim>\<open>addNumbersTool\<close> and converts to a string \<open>n\<close> (every string converts, to
  itself; a missing name converts to \<^verbatim>\<open>undefined\<close>), posted to a registered session
  with a stream: the handler first sends the ordinary acknowledgment with status 200,
  then writes to the session's stream the event line and a data line holding an error
  with code \<open>-32601\<close> and the message \<^verbatim>\<open>No such tool '<n>'\<close>. The registry is
  unchanged.
\<close>

theorem unknown_tool_async_error:
  assumes "sid \<noteq> []" and "sessions sid = Some sd" and "sseRes sd = Some s"
    and "truthy_json rpc" and "read rpc ''jsonrpc'' = Some (JStr ''2.0'')"
    and "read rpc ''method'' = Some (JStr ''tools/call'')"
    and "read_opt (read rpc ''params'') ''name'' = toolName"
    and "toolName \<noteq> Some (JStr ''addNumbersTool'')"
    and "template toolName = Some n"
  shows "post_message sessions (Some (QStr sid)) (Some rpc) =
           (sessions,
            [HttpJson 200 (JSON_stringify
               [(''jsonrpc'', Some (JStr ''2.0'')),
                (''id'', read rpc ''id''),
                (''result'', Some (JObj [(''ack'', JStr ''Received tools/call'')]))]),
             SseWrite s (Text ''event: message\<newline>''),
             SseWrite s (Data (JSON_stringify
               [(''jsonrpc'', Some (JStr ''2.0'')),
                (''id'', read rpc ''id''),
                (''error'', Some (JObj
                   [(''code'', JNum (- 32601)),
                    (''message'', JStr (''No such tool '' @ [CHR 0x27] @ n @ [CHR 0x27]))]))]))]) \<and>
         (\<forall>x. toolName = Some (JStr x) \<longrightarrow> n = x) \<and>
         (toolName = None \<longrightarrow> n = ''undefined'')"
  using assms post_message_tools_call [of sid sessions sd s rpc]
  by (auto simp: message_event_def ack_def callErr_def)

theorem unknown_tool_async_error_witness:
  "post_message [''s1'' \<mapsto> \<lparr>sseRes = Some 0, initialized = False\<rparr>] (Some (QStr ''s1''))
      (Some (JObj [(''jsonrpc'', JStr ''2.0''), (''id'', JNum 9), (''method'', JStr ''tools/call''),
                   (''params'', JObj [(''name'', JStr ''doesNotExist'')])])) =
     ([''s1'' \<mapsto> \<lparr>sseRes = Some 0, initialized = False\<rparr>],
      [HttpJson 200 (JObj
         [(''jsonrpc'', JStr ''2.0''), (''id'', JNum 9),
          (''result'', JObj [(''ack'', JStr ''Received tools/call'')])]),
       SseWrite 0 (Text ''event: message\<newline>''),
       SseWrite 0 (Data (JObj
         [(''jsonrpc'', JStr ''2.0''), (''id'', JNum 9),
          (''error'', JObj
             [(''code'', JNum (- 32601)),
              (''message'', JStr (''No such tool '' @ [CHR 0x27] @ ''doesNotExist'' @ [CHR 0x27]))])]))])"
  using unknown_tool_async_error [of "''s1''" "[''s1'' \<mapsto> \<lparr>sseRes = Some 0, initialized = False\<rparr>]"
      "\<lparr>sseRes = Some 0, initialized = False\<rparr>" 0
      "JObj [(''jsonrpc'', JStr ''2.0''), (''id'', JNum 9), (''method'', JStr ''tools/call''),
             (''params'', JObj [(''name'', JStr ''doesNotExist'')])]"
      "Some (JStr ''doesNotExist'')" "''doesNotExist''"]
  by (simp add: JSON_stringify_def)






text \<open>Beyond \<open>2^53\<close> the sum is rounded: \<open>2^53 - 1 + 2\<close> is \<open>2^53\<close>.\<close>

lemma js_plus_beyond_2_53:
  "js_plus (JNum 9007199254740991) (JNum 2) = Some (SumNum 9007199254740992)"
  by (simp add: js_plus_def round_even_def)




subsection \<open>The registry across exchanges\<close>

text \<open>
  What the handler does to the registry: the only update is the assignment of the
  \<^verbatim>\<open>initialize\<close> case. The effects of the switch do not depend on the registry or on
  the session record.
\<close>

lemma fst_switch_method:
  "fst (switch_method sessions sid sd s rpc) =
     (if read rpc ''method'' = Some (JStr ''initialize'')
      then sessions(sid \<mapsto> sd\<lparr>initialized := True\<rparr>) else sessions)"
  by (simp add: switch_method_def Let_def split: option.splits)

lemma snd_switch_method:
  "snd (switch_method sessions sid sd s rpc) = snd (switch_method sessions' sid' sd' s rpc)"
  by (simp add: switch_method_def Let_def split: option.splits)

lemma fst_post_message:
  "fst (post_message sessions q body) =
     (case q of
        Some (QStr sid) \<Rightarrow>
          (case (sessions sid, body) of
             (Some sd, Some rpc) \<Rightarrow>
               if sid \<noteq> [] \<and> truthy_json rpc \<and> \<not> invalid_request rpc \<and> sseRes sd \<noteq> None \<and>
                  read rpc ''method'' = Some (JStr ''initialize'')
               then sessions(sid \<mapsto> sd\<lparr>initialized := True\<rparr>) else sessions
           | _ \<Rightarrow> sessions)
      | _ \<Rightarrow> sessions)"
  by (auto simp: post_message_def case_prod_beta fst_switch_method
      split: option.splits qval.splits)

lemma post_message_absent:
  "(fst (post_message sessions q body) k = None) = (sessions k = None)"
  by (auto simp: fst_post_message split: option.splits qval.splits)

lemma handle_absent:
  "\<not> connects k r \<Longrightarrow> sessions k = None \<Longrightarrow> fst (handle sessions r) k = None"
  by (cases r) (simp_all add: sse_cursor_def on_close_def post_message_absent)

lemma serve_absent:
  "\<forall>r \<in> set rs. \<not> connects k r \<Longrightarrow> sessions k = None \<Longrightarrow> serve sessions rs k = None"
proof (induction rs arbitrary: sessions)
  case Nil
  then show ?case by simp
next
  case (Cons r rs)
  from Cons.prems have "fst (handle sessions r) k = None"
    by (simp add: handle_absent)
  with Cons show ?case by simp
qed

text \<open>
  Every session is stored with the response object of its stream and no exchange clears
  it: from a registry whose sessions all have a stream (the empty one at start-up), the
  test \<^verbatim>\<open>if (!sseRes)\<close> never fires.
\<close>

lemma serve_streams:
  "\<forall>k sd. sessions k = Some sd \<longrightarrow> sseRes sd \<noteq> None \<Longrightarrow>
   serve sessions rs k = Some sd \<Longrightarrow> sseRes sd \<noteq> None"
proof (induction rs arbitrary: sessions)
  case Nil
  then show ?case by simp
next
  case (Cons r rs)
  have "\<forall>k sd. fst (handle sessions r) k = Some sd \<longrightarrow> sseRes sd \<noteq> None"
  proof (cases r)
    case (Connect i res)
    then show ?thesis using Cons.prems(1) by (auto simp: sse_cursor_def)
  next
    case (Disconnect i)
    then show ?thesis using Cons.prems(1) by (auto simp: on_close_def)
  next
    case (Message q body)
    then show ?thesis using Cons.prems(1)
      by (auto simp: fst_post_message split: option.splits qval.splits if_splits)
  qed
  with Cons show ?case by simp
qed

text \<open>
  C6. A call without a session-id parameter is answered with status 400 and nothing else.
  A call whose session id is not registered is answered with status 404 and nothing else:
  no stream write. Closing a stream removes its session, and from then on, through any
  sequence of further exchanges in which \<^verbatim>\<open>uuidv4()\<close> does not hand out the same id
  again, every call with that session id is answered with status 404 and nothing else.
  (Session ids are the values of \<^verbatim>\<open>uuidv4()\<close>, never the empty string, which the
  handler treats as a missing parameter.)
\<close>

theorem session_lookup_failures:
  "post_message sessions None body =
     (sessions, [HttpJson 400 (JObj [(''error'', JStr ''Missing sessionId in ?sessionId=...'')])]) \<and>
   (sid \<noteq> [] \<and> sessions sid = None \<longrightarrow>
      post_message sessions (Some (QStr sid)) body =
        (sessions, [HttpJson 404 (JObj [(''error'', JStr ''No SSE session with that sessionId'')])])) \<and>
   on_close sessions sid sid = None \<and>
   (sid \<noteq> [] \<and> (\<forall>r \<in> set rs. \<not> connects sid r) \<longrightarrow>
      post_message (serve (on_close sessions sid) rs) (Some (QStr sid)) body =
        (serve (on_close sessions sid) rs,
         [HttpJson 404 (JObj [(''error'', JStr ''No SSE session with that sessionId'')])]))"
proof (intro conjI impI)
  show "post_message sessions None body =
     (sessions, [HttpJson 400 (JObj [(''error'', JStr ''Missing sessionId in ?sessionId=...'')])])"
    by (simp add: post_message_def)
  show "on_close sessions sid sid = None"
    by (simp add: on_close_def)
next
  assume "sid \<noteq> [] \<and> sessions sid = None"
  then show "post_message sessions (Some (QStr sid)) body =
        (sessions, [HttpJson 404 (JObj [(''error'', JStr ''No SSE session with that sessionId'')])])"
    by (simp add: post_message_def)
next
  assume a: "sid \<noteq> [] \<and> (\<forall>r \<in> set rs. \<not> connects sid r)"
  then have "serve (on_close sessions sid) rs sid = None"
    by (intro serve_absent) (simp_all add: on_close_def)
  with a show "post_message (serve (on_close sessions sid) rs) (Some (QStr sid)) body =
        (serve (on_close sessions sid) rs,
         [HttpJson 404 (JObj [(''error'', JStr ''No SSE session with that sessionId'')])])"
    by (simp add: post_message_def)
qed


theorem session_lookup_failures_witness:
  "post_message (serve (on_close [''s1'' \<mapsto> \<lparr>sseRes = Some 0, initialized = True\<rparr>] ''s1'')
        [Connect ''s2'' 1, Message (Some (QStr ''s2'')) None])
      (Some (QStr ''s1''))
      (Some (JObj [(''jsonrpc'', JStr ''2.0''), (''id'', JNum 7), (''method'', JStr ''tools/list'')])) =
     (serve (on_close [''s1'' \<mapsto> \<lparr>sseRes = Some 0, initialized = True\<rparr>] ''s1'')
        [Connect ''s2'' 1, Message (Some (QStr ''s2'')) None],
      [HttpJson 404 (JObj [(''error'', JStr ''No SSE session with that sessionId'')])])"
  using session_lookup_failures [of "[''s1'' \<mapsto> \<lparr>sseRes = Some 0, initialized = True\<rparr>]"
      "Some (JObj [(''jsonrpc'', JStr ''2.0''), (''id'', JNum 7), (''method'', JStr ''tools/list'')])"
      "''s1''" "[Connect ''s2'' 1, Message (Some (QStr ''s2'')) None]"]
  by simp

subsection \<open>Initialization\<close>

lemma post_message_initialize:
  assumes "sid \<noteq> []" and "sessions sid = Some sd" and "sseRes sd = Some s"
    and "truthy_json rpc" and "read rpc ''jsonrpc'' = Some (JStr ''2.0'')"
    and "read rpc ''method'' = Some (JStr ''initialize'')"
  shows "post_message sessions (Some (QStr sid)) (Some rpc) =
           (sessions(sid \<mapsto> sd\<lparr>initialized := True\<rparr>),
            [ack rpc ''initialize'', SseWrite s (Text ''event: message\<newline>''),
             SseWrite s (Data (initCaps rpc))])"
proof -
  have "\<not> invalid_request rpc"
    using assms by (simp add: invalid_request_def)
  then show ?thesis
    using assms post_message_valid [of sid sessions sd rpc s "''initialize''"]
    by (simp add: switch_method_def message_event_def)
qed

text \<open>
  C7. After one accepted \<^verbatim>\<open>initialize\<close> call on a registered session with a stream, a
  second one is acknowledged in the same way and writes the capabilities result (protocol
  version, capabilities, server identity) to the stream again; the flag
  \<^verbatim>\<open>initialized\<close> is true after the first call and the second call leaves the whole
  registry as the first one left it.
\<close>

theorem initialize_twice:
  assumes "sid \<noteq> []" and "sessions sid = Some sd" and "sseRes sd = Some s"
    and "truthy_json rpc1" and "read rpc1 ''jsonrpc'' = Some (JStr ''2.0'')"
    and "read rpc1 ''method'' = Some (JStr ''initialize'')"
    and "truthy_json rpc2" and "read rpc2 ''jsonrpc'' = Some (JStr ''2.0'')"
    and "read rpc2 ''method'' = Some (JStr ''initialize'')"
    and "once = fst (post_message sessions (Some (QStr sid)) (Some rpc1))"
  shows "post_message once (Some (QStr sid)) (Some rpc2) =
           (once,
            [ack rpc2 ''initialize'', SseWrite s (Text ''event: message\<newline>''),
             SseWrite s (Data (initCaps rpc2))]) \<and>
         map_option initialized (once sid) = Some True \<and>
         read (initCaps rpc2) ''result'' = Some (JObj
           [(''protocolVersion'', JStr ''2024-11-05''),
            (''capabilities'', JObj
               [(''tools'', JObj [(''listChanged'', JBool True)]),
                (''resources'', JObj [(''subscribe'', JBool True), (''listChanged'', JBool True)]),
                (''prompts'', JObj [(''listChanged'', JBool True)]),
                (''logging'', JObj [])]),
            (''serverInfo'', JObj
               [(''name'', JStr ''final-capabilities-server''),
                (''version'', JStr ''1.0.0'')])])"
proof -
  have o: "once = sessions(sid \<mapsto> sd\<lparr>initialized := True\<rparr>)"
    using assms post_message_initialize [of sid sessions sd s rpc1] by simp
  have "post_message once (Some (QStr sid)) (Some rpc2) =
          (once(sid \<mapsto> (sd\<lparr>initialized := True\<rparr>)\<lparr>initialized := True\<rparr>),
           [ack rpc2 ''initialize'', SseWrite s (Text ''event: message\<newline>''),
            SseWrite s (Data (initCaps rpc2))])"
  proof (rule post_message_initialize [of sid once "sd\<lparr>initialized := True\<rparr>" s rpc2])
    show "once sid = Some (sd\<lparr>initialized := True\<rparr>)" using o by simp
    show "sseRes (sd\<lparr>initialized := True\<rparr>) = Some s" using assms(3) by simp
  qed (use assms in simp_all)
  moreover have "once(sid \<mapsto> (sd\<lparr>initialized := True\<rparr>)\<lparr>initialized := True\<rparr>) = once"
    using o by simp
  moreover have "read (initCaps rpc2) ''result'' = Some (JObj
           [(''protocolVersion'', JStr ''2024-11-05''),
            (''capabilities'', JObj
               [(''tools'', JObj [(''listChanged'', JBool True)]),
                (''resources'', JObj [(''subscribe'', JBool True), (''listChanged'', JBool True)]),
                (''prompts'', JObj [(''listChanged'', JBool True)]),
                (''logging'', JObj [])]),
            (''serverInfo'', JObj
               [(''name'', JStr ''final-capabilities-server''),
                (''version'', JStr ''1.0.0'')])])"
    by (cases "read rpc2 ''id''") (simp_all add: initCaps_def JSON_stringify_def)
  ultimately show ?thesis using o by simp
qed

theorem initialize_twice_witness:
  "post_message [''s1'' \<mapsto> \<lparr>sseRes = Some 0, initialized = True\<rparr>] (Some (QStr ''s1''))
      (Some (JObj [(''jsonrpc'', JStr ''2.0''), (''id'', JNum 2), (''method'', JStr ''initialize'')])) =
     ([''s1'' \<mapsto> \<lparr>sseRes = Some 0, initialized = True\<rparr>],
      [ack (JObj [(''jsonrpc'', JStr ''2.0''), (''id'', JNum 2), (''method'', JStr ''initialize'')])
         ''initialize'',
       SseWrite 0 (Text ''event: message\<newline>''),
       SseWrite 0 (Data (initCaps
         (JObj [(''jsonrpc'', JStr ''2.0''), (''id'', JNum 2), (''method'', JStr ''initialize'')])))])"
proof -
  have o: "[''s1'' \<mapsto> \<lparr>sseRes = Some 0, initialized = True\<rparr>] =
      fst (post_message [''s1'' \<mapsto> \<lparr>sseRes = Some 0, initialized = False\<rparr>] (Some (QStr ''s1''))
        (Some (JObj [(''jsonrpc'', JStr ''2.0''), (''id'', JNum 1), (''method'', JStr ''initialize'')])))"
    by (simp add: post_message_def invalid_request_def switch_method_def)
  show ?thesis
    using o initialize_twice [of "''s1''" "[''s1'' \<mapsto> \<lparr>sseRes = Some 0, initialized = False\<rparr>]"
      "\<lparr>sseRes = Some 0, initialized = False\<rparr>" 0
      "JObj [(''jsonrpc'', JStr ''2.0''), (''id'', JNum 1), (''method'', JStr ''initialize'')]"
      "JObj [(''jsonrpc'', JStr ''2.0''), (''id'', JNum 2), (''method'', JStr ''initialize'')]"
      "[''s1'' \<mapsto> \<lparr>sseRes = Some 0, initialized = True\<rparr>]"]
    by simp
qed


subsection \<open>Order of the effects\<close>

lemma after_ack_switch:
  "list_all (\<lambda>e. writes_to (Some s) e \<or> is_throw e) (snd (switch_method sessions sid sd s rpc))"
  by (simp add: switch_method_def message_event_def Let_def split: option.splits)

lemma after_ack_effect: "writes_to t e \<or> is_throw e \<Longrightarrow> \<not> is_http e"
  by (cases e) simp_all

lemma after_ack_not_http:
  "list_all (\<lambda>e. writes_to t e \<or> is_throw e) ws \<Longrightarrow> \<not> list_ex is_http ws"
  unfolding list_all_iff list_ex_iff using after_ack_effect by blast

text \<open>
  C8. For every call on a registered session, whatever the body, no stream write precedes
  the synchronous reply. Either the handler is left by the exception of the conversion
  \<^verbatim>\<open>${rpc.method}\<close> before it has replied, and then it has written nothing to any
  stream; or the first effect is the HTTP reply with status 200 (the acknowledgment or the
  \<open>-32600\<close> error), and every later effect is a write to the stream of that session or
  the exception that ends the handler, none of them an HTTP reply. The first case arises
  only for a body whose \<^verbatim>\<open>method\<close> cannot be converted to a string.
\<close>

theorem ack_before_stream_writes:
  assumes "sid \<noteq> []" and "sessions sid = Some sd"
  shows "(snd (post_message sessions (Some (QStr sid)) body) = [Throw TypeError] \<and>
            (\<exists>rpc. body = Some rpc \<and> template (read rpc ''method'') = None)) \<or>
         (\<exists>d ws. snd (post_message sessions (Some (QStr sid)) body) = HttpJson 200 d # ws \<and>
            list_all (\<lambda>e. writes_to (sseRes sd) e \<or> is_throw e) ws \<and> \<not> list_ex is_http ws)"
proof -
  have "(snd (post_message sessions (Some (QStr sid)) body) = [Throw TypeError] \<and>
            (\<exists>rpc. body = Some rpc \<and> template (read rpc ''method'') = None)) \<or>
         (\<exists>d ws. snd (post_message sessions (Some (QStr sid)) body) = HttpJson 200 d # ws \<and>
            list_all (\<lambda>e. writes_to (sseRes sd) e \<or> is_throw e) ws)"
    using assms after_ack_switch
    by (auto simp: post_message_def case_prod_beta invalid_reply_def ack_def
        split: option.splits)
  then show ?thesis using after_ack_not_http by blast
qed

theorem ack_before_stream_writes_witness:
  "\<exists>d ws. snd (post_message [''s1'' \<mapsto> \<lparr>sseRes = Some 0, initialized = False\<rparr>]
       (Some (QStr ''s1''))
       (Some (JObj [(''jsonrpc'', JStr ''2.0''), (''id'', JNum 7), (''method'', JStr ''tools/list'')])))
     = HttpJson 200 d # ws \<and>
     list_all (\<lambda>e. writes_to (Some 0) e \<or> is_throw e) ws \<and> \<not> list_ex is_http ws"
  using ack_before_stream_writes [of "''s1''" "[''s1'' \<mapsto> \<lparr>sseRes = Some 0, initialized = False\<rparr>]"
      "\<lparr>sseRes = Some 0, initialized = False\<rparr>"
      "Some (JObj [(''jsonrpc'', JStr ''2.0''), (''id'', JNum 7), (''method'', JStr ''tools/list'')])"]
  by (simp add: post_message_def invalid_request_def)

subsection \<open>The flag \<^verbatim>\<open>initialized\<close>\<close>

text \<open>
  C9. The effects of a call (the synchronous reply and the stream writes) are the same
  whether the flag \<^verbatim>\<open>initialized\<close> of a session is false or true, for every
  session-id parameter and every body: the flag is written by \<^verbatim>\<open>initialize\<close> and read
  by nothing.
\<close>

theorem initialized_gates_nothing:
  "snd (post_message (sessions(k \<mapsto> sd\<lparr>initialized := False\<rparr>)) q body) =
   snd (post_message (sessions(k \<mapsto> sd\<lparr>initialized := True\<rparr>)) q body)"
  using snd_switch_method
  by (auto simp: post_message_def case_prod_beta split: option.splits qval.splits)

theorem initialized_gates_nothing_witness:
  "snd (post_message [''s1'' \<mapsto> \<lparr>sseRes = Some 0, initialized = False\<rparr>] (Some (QStr ''s1''))
      (Some (JObj [(''jsonrpc'', JStr ''2.0''), (''id'', JNum 9), (''method'', JStr ''tools/call''),
                   (''params'', JObj [(''name'', JStr ''addNumbersTool''),
                                      (''arguments'', JObj [(''a'', JNum 2), (''b'', JNum 3)])])]))) =
   snd (post_message [''s1'' \<mapsto> \<lparr>sseRes = Some 0, initialized = True\<rparr>] (Some (QStr ''s1''))
      (Some (JObj [(''jsonrpc'', JStr ''2.0''), (''id'', JNum 9), (''method'', JStr ''tools/call''),
                   (''params'', JObj [(''name'', JStr ''addNumbersTool''),
                                      (''arguments'', JObj [(''a'', JNum 2), (''b'', JNum 3)])])]))) \<and>
   length (snd (post_message [''s1'' \<mapsto> \<lparr>sseRes = Some 0, initialized = False\<rparr>]
      (Some (QStr ''s1''))
      (Some (JObj [(''jsonrpc'', JStr ''2.0''), (''id'', JNum 9), (''method'', JStr ''tools/call''),
                   (''params'', JObj [(''name'', JStr ''addNumbersTool''),
                                      (''arguments'', JObj [(''a'', JNum 2), (''b'', JNum 3)])])])))) = 3"
  using initialized_gates_nothing [of Map.empty "''s1''" "\<lparr>sseRes = Some 0, initialized = False\<rparr>"
      "Some (QStr ''s1'')"
      "Some (JObj [(''jsonrpc'', JStr ''2.0''), (''id'', JNum 9), (''method'', JStr ''tools/call''),
                   (''params'', JObj [(''name'', JStr ''addNumbersTool''),
                                      (''arguments'', JObj [(''a'', JNum 2), (''b'', JNum 3)])])])"]
  by (simp add: post_message_def invalid_request_def switch_method_def message_event_def js_or_def
      sum_text_def js_plus_def template_def)

text \<open>
  C10. Handling a call, with any parameter and any body, leaves the set of registered
  session ids and the stream of every session as they were. The flag \<^verbatim>\<open>initialized\<close>
  of a session is unchanged unless the call addresses that session with method
  \<^verbatim>\<open>initialize\<close>, in which case it is true afterwards; a call of any other method
  leaves the registry as it was, and an accepted \<^verbatim>\<open>initialize\<close> on a session with a
  stream sets exactly the flag of the addressed session.
\<close>

theorem post_message_frame:
  "dom (fst (post_message sessions q body)) = dom sessions \<and>
   (\<forall>k. map_option sseRes (fst (post_message sessions q body) k) = map_option sseRes (sessions k)) \<and>
   (\<forall>k. map_option initialized (fst (post_message sessions q body) k) =
          map_option initialized (sessions k) \<or>
        q = Some (QStr k) \<and> read_opt body ''method'' = Some (JStr ''initialize'') \<and>
        map_option initialized (fst (post_message sessions q body) k) = Some True) \<and>
   (read_opt body ''method'' \<noteq> Some (JStr ''initialize'') \<longrightarrow>
      fst (post_message sessions q body) = sessions) \<and>
   (\<forall>sid sd s rpc. q = Some (QStr sid) \<and> body = Some rpc \<and> sid \<noteq> [] \<and> sessions sid = Some sd \<and>
      sseRes sd = Some s \<and> truthy_json rpc \<and> read rpc ''jsonrpc'' = Some (JStr ''2.0'') \<and>
      read rpc ''method'' = Some (JStr ''initialize'') \<longrightarrow>
      fst (post_message sessions q body) = sessions(sid \<mapsto> sd\<lparr>initialized := True\<rparr>))"
proof (intro conjI allI impI)
  show "dom (fst (post_message sessions q body)) = dom sessions"
    by (auto simp: fst_post_message split: option.splits qval.splits if_splits)
next
  fix k
  show "map_option sseRes (fst (post_message sessions q body) k) = map_option sseRes (sessions k)"
    by (auto simp: fst_post_message split: option.splits qval.splits)
next
  fix k
  show "map_option initialized (fst (post_message sessions q body) k) =
          map_option initialized (sessions k) \<or>
        q = Some (QStr k) \<and> read_opt body ''method'' = Some (JStr ''initialize'') \<and>
        map_option initialized (fst (post_message sessions q body) k) = Some True"
    by (auto simp: fst_post_message read_opt_truthy split: option.splits qval.splits)
next
  assume "read_opt body ''method'' \<noteq> Some (JStr ''initialize'')"
  then show "fst (post_message sessions q body) = sessions"
    by (auto simp: fst_post_message read_opt_truthy split: option.splits qval.splits)
next
  fix sid sd s rpc
  assume "q = Some (QStr sid) \<and> body = Some rpc \<and> sid \<noteq> [] \<and> sessions sid = Some sd \<and>
      sseRes sd = Some s \<and> truthy_json rpc \<and> read rpc ''jsonrpc'' = Some (JStr ''2.0'') \<and>
      read rpc ''method'' = Some (JStr ''initialize'')"
  then show "fst (post_message sessions q body) = sessions(sid \<mapsto> sd\<lparr>initialized := True\<rparr>)"
    by (simp add: fst_post_message invalid_request_def)
qed

theorem post_message_frame_witness:
  "fst (post_message [''s1'' \<mapsto> \<lparr>sseRes = Some 0, initialized = False\<rparr>] (Some (QStr ''s1''))
      (Some (JObj [(''jsonrpc'', JStr ''2.0''), (''id'', JNum 9), (''method'', JStr ''tools/list'')]))) =
     [''s1'' \<mapsto> \<lparr>sseRes = Some 0, initialized = False\<rparr>] \<and>
   fst (post_message [''s1'' \<mapsto> \<lparr>sseRes = Some 0, initialized = False\<rparr>] (Some (QStr ''s1''))
      (Some (JObj [(''jsonrpc'', JStr ''2.0''), (''id'', JNum 1), (''method'', JStr ''initialize'')]))) =
     [''s1'' \<mapsto> \<lparr>sseRes = Some 0, initialized = True\<rparr>]"
  using post_message_frame [of "[''s1'' \<mapsto> \<lparr>sseRes = Some 0, initialized = False\<rparr>]"
      "Some (QStr ''s1'')"
      "Some (JObj [(''jsonrpc'', JStr ''2.0''), (''id'', JNum 9), (''method'', JStr ''tools/list'')])"]
    post_message_frame [of "[''s1'' \<mapsto> \<lparr>sseRes = Some 0, initialized = False\<rparr>]"
      "Some (QStr ''s1'')"
      "Some (JObj [(''jsonrpc'', JStr ''2.0''), (''id'', JNum 1), (''method'', JStr ''initialize'')])"]
  by simp

end
